theory Spec2Isabelle
  imports Main
begin

section \<open>Data model\<close>

text \<open>
  Go strings are byte strings, modelled as \<open>string\<close>. Go's \<open>error\<close> values are
  modelled by the datatype below: the two sentinels the code compares against with
  \<open>==\<close> (\<open>store.ErrNotFound\<close>, \<open>mongo.ErrNoDocuments\<close>), the errors built with
  \<open>errors.New\<close>, any other error of a collaborator, and the runtime panic of a
  method call on a nil interface, which unwinds through every caller.
\<close>

datatype error =
    ErrNotFound
  | ErrNoDocuments
  | ErrorsNew string
  | ErrOther string
  | PanicNilPointer

text \<open>
  \<open>time.Time\<close> is an instant counted from Go's zero time, so that \<open>IsZero\<close> is
  the test against 0.
\<close>

type_synonym Time = int

definition IsZero :: "Time \<Rightarrow> bool" where
  "IsZero t = (t = 0)"

text \<open>
  Modelled from the spec: the package \<open>rocketchat\<close> that declares \<open>File\<close>,
  \<open>AmazonS3\<close> and \<open>GoogleStorage\<close> is not part of the sources. The records
  below hold the fields that \<open>methods.go\<close> reads and writes (section 3 of the
  specification, File Record): identity, display name, content type, owning room and
  user, completion flag, upload timestamp, backend descriptor, the two kind-specific
  sub-objects, and the served path and URL.
\<close>

record AmazonS3 =
  AmazonS3_Path :: string

record GoogleStorage =
  GoogleStorage_Path :: string

record File =
  ID :: string
  Name :: string
  Type :: string
  Rid :: string
  UserID :: string
  Complete :: bool
  UploadedAt :: Time
  Store :: string
  AmazonS3 :: AmazonS3
  GoogleStorage :: GoogleStorage
  URL :: string
  Path :: string

text \<open>
  Modelled from the spec: the interface \<open>store.Provider\<close> is declared outside the
  sources. The record holds what \<open>methods.go\<close> calls on a provider (section 4.3):
  its kind, and the answers of its fetch and push operations (\<open>None\<close> is the nil
  error).
\<close>

record Provider =
  StoreType :: string
  Download :: "string \<Rightarrow> File \<Rightarrow> error + string"
  Upload :: "string \<Rightarrow> string \<Rightarrow> string \<Rightarrow> error option"

text \<open>
  Modelled from the spec: the struct \<open>Migrate\<close> is declared outside the sources.
  The record holds the fields that \<open>methods.go\<close> uses (section 3, Run
  Configuration); a provider binding that is absent is \<open>None\<close> (a nil interface).
\<close>

record Migrate =
  storeName :: string
  sourceStore :: "Provider option"
  destinationStore :: "Provider option"
  connectionString :: string
  databaseName :: string
  fileCollectionName :: string
  uniqueID :: string
  fileOffset :: Time
  skipErrors :: bool

text \<open>
  The catalog query that \<open>getFiles\<close> builds: the \<open>store\<close> field to match
  and, when a resumption offset is set, the lower bound on \<open>uploadedAt\<close>.
\<close>

record Query =
  q_store :: string
  q_uploadedAt_gte :: "Time option"

text \<open>
  What a run does to its collaborators, in order: the catalog connection, the read of
  the instance identifier, the candidate query, and per record the fetch
  (collection, record), the push (destination path, local path, content type) and the
  catalog update (collection, record id, the \<open>$set\<close> document, the \<open>$unset\<close> name,
  empty when there is none).
\<close>

datatype event =
    EvConnect string
  | EvFindOne string
  | EvFind string Query
  | EvDownload string File
  | EvUpload string string string
  | EvUpdateOne string string File string

text \<open>
  The answers of everything outside the sources: the catalog client
  (\<open>connectDB\<close>, \<open>FindOne\<close> on the settings, \<open>Find\<close> followed by
  \<open>cursor.All\<close>, \<open>UpdateOne\<close>), the process environment, \<open>strconv.Atoi\<close>
  and \<open>os.Stat\<close>. \<open>Find\<close> answers an error, or a cursor whose \<open>All\<close>
  answers an error or the records.
\<close>

record World =
  connectDB :: "string \<Rightarrow> error option"
  settings_FindOne :: "error + string"
  collection_Find :: "string \<Rightarrow> Query \<Rightarrow> error + (error + File list)"
  collection_UpdateOne :: "string \<Rightarrow> string \<Rightarrow> File \<Rightarrow> string \<Rightarrow> error option"
  LookupEnv :: "string \<Rightarrow> string option"
  Atoi :: "string \<Rightarrow> error + int"
  Stat_IsNotExist :: "string \<Rightarrow> bool"

section \<open>Path and record policy\<close>

text \<open>
  \<open>strings.ToLower\<close> on ASCII letters; the code applies it to the category name
  only, which is \<open>Uploads\<close> or \<open>Avatars\<close> wherever the result is used.
\<close>

definition toLowerChar :: "char \<Rightarrow> char" where
  "toLowerChar c =
     (case map_of (zip ''ABCDEFGHIJKLMNOPQRSTUVWXYZ'' ''abcdefghijklmnopqrstuvwxyz'') c of
        Some l \<Rightarrow> l
      | None \<Rightarrow> c)"

definition ToLower :: "string \<Rightarrow> string" where
  "ToLower s = map toLowerChar s"

text \<open>
  \<open>getObjectPath\<close> (methods.go, 249 to 265). The \<open>switch\<close> leaves the path
  empty for any other category; the destination's kind is read through
  \<open>m.destinationStore\<close>, a nil dereference when the destination is not bound.
\<close>

definition getObjectPath :: "Migrate \<Rightarrow> File \<Rightarrow> error + string" where
  "getObjectPath m file =
     (let objectPath =
        (if storeName m = ''Uploads'' then
           uniqueID m @ ''/'' @ ToLower (storeName m) @ ''/'' @ Rid file @ ''/'' @
             UserID file @ ''/'' @ ID file
         else if storeName m = ''Avatars'' then
           uniqueID m @ ''/'' @ ToLower (storeName m) @ ''/'' @ UserID file
         else '''')
      in case destinationStore m of
           None \<Rightarrow> Inl PanicNilPointer
         | Some d \<Rightarrow>
             if StoreType d = ''FileSystem'' then Inr (ID file) else Inr objectPath)"

text \<open>
  \<open>fixFileForUpload\<close> (methods.go, 267 to 299) mutates the record in place and
  returns the name of the sub-object to unset; the model returns both.
\<close>

definition fixFileForUpload :: "Migrate \<Rightarrow> File \<Rightarrow> string \<Rightarrow> error + (File \<times> string)" where
  "fixFileForUpload m file objectPath =
     (case destinationStore m of
        None \<Rightarrow> Inl PanicNilPointer
      | Some d \<Rightarrow>
          (let (file1, unset) =
             (if StoreType d = ''AmazonS3'' then
                (file\<lparr>AmazonS3 := \<lparr>AmazonS3_Path = objectPath\<rparr>,
                      GoogleStorage := \<lparr>GoogleStorage_Path = ''''\<rparr>\<rparr>, ''GoogleStorage'')
              else if StoreType d = ''GoogleCloudStorage'' then
                (file\<lparr>GoogleStorage := \<lparr>GoogleStorage_Path = objectPath\<rparr>,
                      AmazonS3 := \<lparr>AmazonS3_Path = ''''\<rparr>\<rparr>, ''AmazonS3'')
              else (file, ''''));
             ufsPath = ''/ufs/'' @ StoreType d @ '':'' @ storeName m @ ''/'' @ ID file1 @
                         ''/'' @ Name file1
           in Inr (file1\<lparr>URL := ufsPath, Path := ufsPath,
                          Store := StoreType d @ '':'' @ storeName m\<rparr>, unset)))"

section \<open>The GridFS provider\<close>

text \<open>
  \<open>store/gridfs.go\<close>: the provider's fields (the session handle is left out, no
  method reads it) and its methods. \<open>Download\<close> returns the empty path and the
  nil error: its body is commented out.
\<close>

record GridFSProvider =
  Database :: string
  TempFileLocation :: string

definition GridFSProvider_StoreType :: "GridFSProvider \<Rightarrow> string" where
  "GridFSProvider_StoreType g = ''GridFS''"

definition GridFSProvider_SetTempDirectory :: "GridFSProvider \<Rightarrow> string \<Rightarrow> GridFSProvider" where
  "GridFSProvider_SetTempDirectory g dir = g\<lparr>TempFileLocation := dir\<rparr>"

definition GridFSProvider_Download :: "GridFSProvider \<Rightarrow> string \<Rightarrow> File \<Rightarrow> error + string" where
  "GridFSProvider_Download g fileCollection file = Inr ''''"

definition GridFSProvider_Upload :: "GridFSProvider \<Rightarrow> string \<Rightarrow> string \<Rightarrow> string \<Rightarrow> error option" where
  "GridFSProvider_Upload g path filePath contentType = None"

definition GridFSProvider_Delete :: "GridFSProvider \<Rightarrow> File \<Rightarrow> bool \<Rightarrow> error option" where
  "GridFSProvider_Delete g file permanentelyDelete =
     Some (ErrorsNew ''delete object method not implemented'')"

text \<open>The GridFS provider bound to a role of a run, through the provider interface.\<close>

definition GridFS_binding :: "GridFSProvider \<Rightarrow> Provider" where
  "GridFS_binding g =
     \<lparr>StoreType = GridFSProvider_StoreType g,
      Download = GridFSProvider_Download g,
      Upload = GridFSProvider_Upload g\<rparr>"

section \<open>Candidate enumeration\<close>

text \<open>
  \<open>getFiles\<close> (methods.go, 65 to 130) returns the records or an error, and stores
  the collection name and the instance identifier in \<open>m\<close>; the model returns the
  updated \<open>m\<close>, the accesses made and the result. The kind of the source is read
  through \<open>m.sourceStore\<close> after the settings were read: a nil dereference when no
  source is bound.
\<close>

definition getFiles :: "Migrate \<Rightarrow> World \<Rightarrow> Migrate \<times> event list \<times> (error + File list)" where
  "getFiles m w =
     (if storeName m = '''' then (m, [], Inl (ErrorsNew ''no store Name''))
      else if storeName m \<noteq> ''Uploads'' \<and> storeName m \<noteq> ''Avatars'' then
        (m, [], Inl (ErrorsNew ''Invalid store Name''))
      else
        (let fileCollection =
               (if storeName m = ''Uploads'' then ''rocketchat_uploads''
                else ''rocketchat_avatars'');
             m1 = m\<lparr>fileCollectionName := fileCollection\<rparr>;
             ev1 = [EvConnect (connectionString m1)];
             ev2 = ev1 @ [EvFindOne ''rocketchat_settings'']
         in (case connectDB w (connectionString m1) of
               Some err \<Rightarrow> (m1, ev1, Inl err)
             | None \<Rightarrow>
                 (case settings_FindOne w of
                    Inl err \<Rightarrow> (m1, ev2, Inl err)
                  | Inr v \<Rightarrow>
                      (case sourceStore m1 of
                         None \<Rightarrow> (m1\<lparr>uniqueID := v\<rparr>, ev2, Inl PanicNilPointer)
                       | Some src \<Rightarrow>
                           (let m2 = m1\<lparr>uniqueID := v\<rparr>;
                                query =
                                  \<lparr>q_store = StoreType src @ '':'' @ storeName m2,
                                   q_uploadedAt_gte =
                                     (if \<not> IsZero (fileOffset m2) then Some (fileOffset m2)
                                      else None)\<rparr>;
                                ev3 = ev2 @ [EvFind fileCollection query]
                            in (case collection_Find w fileCollection query of
                                  Inl err \<Rightarrow>
                                    (if err = ErrNoDocuments then
                                       (m2, ev3, Inl (ErrorsNew ''No files found''))
                                     else (m2, ev3, Inl err))
                                | Inr (Inl err) \<Rightarrow> (m2, ev3, Inl err)
                                | Inr (Inr fs) \<Rightarrow> (m2, ev3, Inr fs))))))))"

text \<open>
  Modelled from the spec: the catalog evaluates the query, outside the sources.
  Candidate selection filters on the current backend descriptor and, when an offset is
  set, on "uploaded at" being at or after it (sections 4.1 and 6).
\<close>

definition query_matches :: "Query \<Rightarrow> File \<Rightarrow> bool" where
  "query_matches q f =
     (Store f = q_store q \<and>
      (case q_uploadedAt_gte q of None \<Rightarrow> True | Some t \<Rightarrow> t \<le> UploadedAt f))"

section \<open>The per-record pipelines\<close>

text \<open>
  How the processing of one record ends. The first four are the signal on the
  completion channel (or, in the sequential mode, \<open>continue\<close> and the end of the
  loop body); \<open>Fatal\<close> is the error sent to the error channel (or returned);
  \<open>Crashed\<close> is a nil dereference.
\<close>

datatype outcome =
    SkippedIncomplete
  | SkippedMissing
  | SkippedFetch error
  | Succeeded
  | Fatal error
  | Crashed

text \<open>Lines 196 to 202 of methods.go: the defaults of the room and the user.\<close>

definition defaultOwners :: "Migrate \<Rightarrow> File \<Rightarrow> File" where
  "defaultOwners m file =
     (let file1 = (if Rid file = '''' \<and> storeName m = ''Uploads''
                   then file\<lparr>Rid := ''undefined''\<rparr> else file)
      in if UserID file1 = '''' then file1\<lparr>UserID := ''undefined''\<rparr> else file1)"

text \<open>
  Lines 204 to 235, shared with lines 427 to 452 of \<open>UploadAll\<close>: compute the
  path, push, mutate the record, update the catalog.
\<close>

definition pushAndRecord :: "Migrate \<Rightarrow> World \<Rightarrow> File \<Rightarrow> string \<Rightarrow> event list \<times> outcome" where
  "pushAndRecord m w file localPath =
     (case getObjectPath m file of
        Inl p \<Rightarrow> ([], Crashed)
      | Inr objectPath \<Rightarrow>
          (case destinationStore m of
             None \<Rightarrow> ([], Crashed)
           | Some dst \<Rightarrow>
               (case Upload dst objectPath localPath (Type file) of
                  Some err \<Rightarrow> ([EvUpload objectPath localPath (Type file)], Fatal err)
                | None \<Rightarrow>
                    (case fixFileForUpload m file objectPath of
                       Inl p \<Rightarrow> ([EvUpload objectPath localPath (Type file)], Crashed)
                     | Inr (file', unset) \<Rightarrow>
                         (case collection_UpdateOne w (fileCollectionName m) (ID file') file' unset of
                            Some err \<Rightarrow>
                              ([EvUpload objectPath localPath (Type file),
                                EvUpdateOne (fileCollectionName m) (ID file') file' unset],
                               Fatal err)
                          | None \<Rightarrow>
                              ([EvUpload objectPath localPath (Type file),
                                EvUpdateOne (fileCollectionName m) (ID file') file' unset],
                               Succeeded))))))"

text \<open>The worker of \<open>MigrateStore\<close> (methods.go, 175 to 237).\<close>

definition migrateWorker :: "Migrate \<Rightarrow> World \<Rightarrow> File \<Rightarrow> event list \<times> outcome" where
  "migrateWorker m w file =
     (case sourceStore m of
        None \<Rightarrow> ([], Crashed)
      | Some src \<Rightarrow>
          (if \<not> Complete file then ([], SkippedIncomplete)
           else
             (case Download src (fileCollectionName m) file of
                Inl err \<Rightarrow>
                  (if err = ErrNotFound \<or> skipErrors m then
                     ([EvDownload (fileCollectionName m) file], SkippedFetch err)
                   else ([EvDownload (fileCollectionName m) file], Fatal err))
              | Inr downloadedPath \<Rightarrow>
                  (let (evs, out) = pushAndRecord m w (defaultOwners m file) downloadedPath
                   in (EvDownload (fileCollectionName m) file # evs, out)))))"

text \<open>The worker of \<open>DownloadAll\<close> (methods.go, 358 to 383).\<close>

definition downloadWorker :: "Migrate \<Rightarrow> File \<Rightarrow> event list \<times> outcome" where
  "downloadWorker m file =
     (case sourceStore m of
        None \<Rightarrow> ([], Crashed)
      | Some src \<Rightarrow>
          (if \<not> Complete file then ([], SkippedIncomplete)
           else
             (case Download src (fileCollectionName m) file of
                Inl err \<Rightarrow>
                  (if err = ErrNotFound \<or> skipErrors m then
                     ([EvDownload (fileCollectionName m) file], SkippedFetch err)
                   else ([EvDownload (fileCollectionName m) file], Fatal err))
              | Inr downloadedPath \<Rightarrow>
                  ([EvDownload (fileCollectionName m) file], Succeeded))))"

text \<open>The loop body of \<open>UploadAll\<close> (methods.go, 410 to 453).\<close>

definition uploadOne :: "Migrate \<Rightarrow> World \<Rightarrow> string \<Rightarrow> File \<Rightarrow> event list \<times> outcome" where
  "uploadOne m w filesRoot file =
     (let fileLocation = filesRoot @ ''/'' @ ID file
      in (if Stat_IsNotExist w fileLocation then ([], SkippedMissing)
          else
            (case destinationStore m of
               None \<Rightarrow> ([], Crashed)
             | Some dst \<Rightarrow>
                 (if \<not> Complete file then ([], SkippedIncomplete)
                  else pushAndRecord m w file fileLocation))))"

fun uploadLoop :: "Migrate \<Rightarrow> World \<Rightarrow> string \<Rightarrow> File list \<Rightarrow> event list \<times> error option" where
  "uploadLoop m w filesRoot [] = ([], None)"
| "uploadLoop m w filesRoot (file # files) =
     (case uploadOne m w filesRoot file of
        (evs, Fatal err) \<Rightarrow> (evs, Some err)
      | (evs, Crashed) \<Rightarrow> (evs, Some PanicNilPointer)
      | (evs, _) \<Rightarrow>
          (let (evs', r) = uploadLoop m w filesRoot files in (evs @ evs', r)))"

text \<open>\<open>UploadAll\<close> (methods.go, 396 to 458).\<close>

definition UploadAll :: "Migrate \<Rightarrow> World \<Rightarrow> string \<Rightarrow> event list \<times> error option" where
  "UploadAll m w filesRoot =
     (if destinationStore m = None then
        ([], Some (ErrorsNew ''For UploadAll must have a destination store provided''))
      else case getFiles m w of
             (m', evs, Inl err) \<Rightarrow> (evs, Some err)
           | (m', evs, Inr files) \<Rightarrow>
               (let (evs', r) = uploadLoop m' w (filesRoot @ ''/'' @ ToLower (storeName m')) files
                in (evs @ evs', r)))"

section \<open>MigrateStore\<close>

text \<open>
  The sequential start of \<open>MigrateStore\<close> (methods.go, 133 to 152): the check of
  the two bindings, \<open>getFiles\<close>, then the concurrency limit, 1 unless
  \<open>MAX_CONCURRENCY\<close> is set, in which case its value goes through \<open>Atoi\<close>. The
  result is the accesses made so far, and the error returned or the plan of the run.
\<close>

record Plan =
  plan_m :: Migrate
  files :: "File list"
  maxConcurrency :: int

definition MigrateStore_start :: "Migrate \<Rightarrow> World \<Rightarrow> event list \<times> (error + Plan)" where
  "MigrateStore_start m w =
     (if sourceStore m = None \<or> destinationStore m = None then
        ([], Inl (ErrorsNew ''For MigrateStore both a source and destionation store must be provided''))
      else case getFiles m w of
             (m', evs, Inl err) \<Rightarrow> (evs, Inl err)
           | (m', evs, Inr fs) \<Rightarrow>
               (case LookupEnv w ''MAX_CONCURRENCY'' of
                  None \<Rightarrow> (evs, Inr \<lparr>plan_m = m', files = fs, maxConcurrency = 1\<rparr>)
                | Some v \<Rightarrow>
                    (case Atoi w v of
                       Inl err \<Rightarrow> (evs, Inl err)
                     | Inr n \<Rightarrow> (evs, Inr \<lparr>plan_m = m', files = fs, maxConcurrency = n\<rparr>))))"

text \<open>
  The concurrent part (methods.go, 154 to 246) as a transition system. The goroutines
  are the scheduling loop (the caller's), one worker per record launched so far, and
  the listener on the error channel. Both channels are unbuffered, so a send and its
  receive are one joint step.

  A worker is \<open>Running\<close> from its launch until its body has run, then blocked on
  its send to the completion channel (\<open>SendingDone\<close>) or to the error channel
  (\<open>SendingErr\<close>), then \<open>Finished\<close>.

  The scheduling loop is at the head of iteration \<open>i\<close> (\<open>AtLoop i\<close>, line 165),
  past the wait of line 168 and about to launch worker \<open>i\<close> (\<open>AtLaunch i\<close>), at
  the receive of line 240 (\<open>AtDrain\<close>), at the send of line 242
  (\<open>AtRelease\<close>), or has returned.

  The listener (lines 157 to 163) receives one value: on nil it exits, on an error it
  panics, which ends the process (\<open>crashed\<close>).
\<close>

datatype wstate = Running | SendingDone | SendingErr error | Finished

datatype mpc = AtLoop nat | AtLaunch nat | AtDrain | AtRelease | Returned "error option"

datatype lstate = NotStarted | Listening | Exited

record Sys =
  pc :: mpc
  workers :: "wstate list"
  listener :: lstate
  crashed :: "error option"
  trace :: "event list"

text \<open>
  One step of one goroutine: \<open>Main\<close> is a move of the scheduling loop on its own,
  \<open>Work k\<close> runs the body of worker \<open>k\<close> on record \<open>k\<close>, \<open>RecvDone k\<close> is the
  loop receiving worker \<open>k\<close>'s completion signal, \<open>RecvErr k\<close> is the listener
  receiving worker \<open>k\<close>'s error, \<open>SendNil\<close> is the loop's send of nil to the
  listener. A step that is not enabled is \<open>None\<close>.
\<close>

datatype action = Main | Work nat | RecvDone nat | RecvErr nat | SendNil

definition step :: "Plan \<Rightarrow> World \<Rightarrow> action \<Rightarrow> Sys \<Rightarrow> Sys option" where
  "step p w a s =
     (if crashed s \<noteq> None then None
      else case a of
        Main \<Rightarrow>
          (case pc s of
             AtLoop i \<Rightarrow>
               if i < length (files p) then
                 (if int i = maxConcurrency p then None else Some (s\<lparr>pc := AtLaunch i\<rparr>))
               else Some (s\<lparr>pc := AtDrain\<rparr>)
           | AtLaunch i \<Rightarrow> Some (s\<lparr>pc := AtLoop (Suc i), workers := workers s @ [Running]\<rparr>)
           | AtDrain \<Rightarrow> None
           | AtRelease \<Rightarrow> None
           | Returned r \<Rightarrow> None)
      | Work k \<Rightarrow>
          if k < length (workers s) \<and> k < length (files p) \<and> workers s ! k = Running then
            (case migrateWorker (plan_m p) w (files p ! k) of
               (evs, Fatal err) \<Rightarrow>
                 Some (s\<lparr>workers := (workers s)[k := SendingErr err], trace := trace s @ evs\<rparr>)
             | (evs, Crashed) \<Rightarrow>
                 Some (s\<lparr>crashed := Some PanicNilPointer, trace := trace s @ evs\<rparr>)
             | (evs, _) \<Rightarrow>
                 Some (s\<lparr>workers := (workers s)[k := SendingDone], trace := trace s @ evs\<rparr>))
          else None
      | RecvDone k \<Rightarrow>
          if k < length (workers s) \<and> workers s ! k = SendingDone then
            (case pc s of
               AtLoop i \<Rightarrow>
                 if i < length (files p) \<and> int i = maxConcurrency p then
                   Some (s\<lparr>pc := AtLaunch i, workers := (workers s)[k := Finished]\<rparr>)
                 else None
             | AtDrain \<Rightarrow> Some (s\<lparr>pc := AtRelease, workers := (workers s)[k := Finished]\<rparr>)
             | _ \<Rightarrow> None)
          else None
      | RecvErr k \<Rightarrow>
          if k < length (workers s) \<and> listener s = Listening then
            (case workers s ! k of
               SendingErr err \<Rightarrow> Some (s\<lparr>crashed := Some err\<rparr>)
             | _ \<Rightarrow> None)
          else None
      | SendNil \<Rightarrow>
          if pc s = AtRelease \<and> listener s = Listening then
            Some (s\<lparr>pc := Returned None, listener := Exited\<rparr>)
          else None)"

fun exec :: "Plan \<Rightarrow> World \<Rightarrow> action list \<Rightarrow> Sys \<Rightarrow> Sys option" where
  "exec p w [] s = Some s"
| "exec p w (a # as) s =
     (case step p w a s of None \<Rightarrow> None | Some s' \<Rightarrow> exec p w as s')"

text \<open>
  \<open>MigrateStore\<close> under a schedule of the goroutines: the state reached, or
  \<open>None\<close> when the schedule asks for a step that is not enabled.
\<close>

definition MigrateStore :: "Migrate \<Rightarrow> World \<Rightarrow> action list \<Rightarrow> Sys option" where
  "MigrateStore m w sched =
     (case MigrateStore_start m w of
        (evs, Inl err) \<Rightarrow>
          (if sched = [] then
             Some \<lparr>pc = Returned (Some err), workers = [], listener = NotStarted,
                   crashed = None, trace = evs\<rparr>
           else None)
      | (evs, Inr p) \<Rightarrow>
          exec p w sched
            \<lparr>pc = AtLoop 0, workers = [], listener = Listening, crashed = None, trace = evs\<rparr>)"

text \<open>The transfers in flight: the workers launched whose body has not run to its end.\<close>

definition in_flight :: "Sys \<Rightarrow> nat" where
  "in_flight s = length (filter (\<lambda>x. x = Running) (workers s))"

text \<open>An access that moves an object or changes the catalog: a fetch, a push or an update.\<close>

fun is_transfer :: "event \<Rightarrow> bool" where
  "is_transfer (EvDownload c f) = True"
| "is_transfer (EvUpload p l t) = True"
| "is_transfer (EvUpdateOne c i f u) = True"
| "is_transfer _ = False"

section \<open>Sample runs\<close>

text \<open>
  A provider of a given kind whose fetch fails with not-found for the record
  \<open>gone\<close>, with another error for the record \<open>broken\<close>, and stages any other
  record under \<open>/tmp\<close>; its push succeeds.
\<close>

definition sample_store :: "string \<Rightarrow> Provider" where
  "sample_store kind =
     \<lparr>StoreType = kind,
      Download = (\<lambda>c f. if ID f = ''gone'' then Inl ErrNotFound
                         else if ID f = ''broken'' then Inl (ErrOther ''connection reset'')
                         else Inr (''/tmp/'' @ ID f)),
      Upload = (\<lambda>p l t. None)\<rparr>"

definition sample_file :: "string \<Rightarrow> bool \<Rightarrow> File" where
  "sample_file i c =
     \<lparr>ID = i, Name = ''a.png'', Type = ''image/png'', Rid = '''', UserID = ''u1'',
      Complete = c, UploadedAt = 5, Store = ''AmazonS3:Uploads'',
      AmazonS3 = \<lparr>AmazonS3_Path = ''old/'' @ i\<rparr>,
      GoogleStorage = \<lparr>GoogleStorage_Path = ''''\<rparr>,
      URL = ''/ufs/AmazonS3:Uploads/'' @ i @ ''/a.png'',
      Path = ''/ufs/AmazonS3:Uploads/'' @ i @ ''/a.png''\<rparr>"

definition sample_m :: "string \<Rightarrow> string \<Rightarrow> string \<Rightarrow> bool \<Rightarrow> Migrate" where
  "sample_m category src dst skip =
     \<lparr>storeName = category, sourceStore = Some (sample_store src),
      destinationStore = Some (sample_store dst), connectionString = ''mongodb://db'',
      databaseName = ''rocketchat'', fileCollectionName = '''', uniqueID = '''',
      fileOffset = 0, skipErrors = skip\<rparr>"

text \<open>
  A world whose catalog answers the candidate query with the given records, whose
  updates succeed, where \<open>MAX_CONCURRENCY\<close> has the given value, and where
  \<open>Atoi\<close> reads \<open>1\<close> and \<open>2\<close> and rejects the rest.
\<close>

definition sample_w :: "File list \<Rightarrow> string option \<Rightarrow> World" where
  "sample_w fs v =
     \<lparr>connectDB = (\<lambda>c. None),
      settings_FindOne = Inr ''inst'',
      collection_Find = (\<lambda>c q. Inr (Inr fs)),
      collection_UpdateOne = (\<lambda>c i f u. None),
      LookupEnv = (\<lambda>k. if k = ''MAX_CONCURRENCY'' then v else None),
      Atoi = (\<lambda>t. if t = ''1'' then Inr 1 else if t = ''2'' then Inr 2
                    else Inl (ErrOther ''invalid syntax'')),
      Stat_IsNotExist = (\<lambda>l. False)\<rparr>"

section \<open>Invariants of the scheduling loop\<close>

text \<open>
  What the position of the scheduling loop says about the workers launched and the
  listener: iteration \<open>i\<close> starts with \<open>i\<close> workers launched, and the loop is
  left only when every record has its worker; the listener is released by the send of
  nil only.
\<close>

definition loop_inv :: "Plan \<Rightarrow> Sys \<Rightarrow> bool" where
  "loop_inv p s =
     (case pc s of
        AtLoop i \<Rightarrow> length (workers s) = i \<and> i \<le> length (files p) \<and> listener s = Listening
      | AtLaunch i \<Rightarrow> length (workers s) = i \<and> i < length (files p) \<and> listener s = Listening
      | AtDrain \<Rightarrow> length (workers s) = length (files p) \<and> listener s = Listening
      | AtRelease \<Rightarrow> length (workers s) = length (files p) \<and> listener s = Listening
      | Returned r \<Rightarrow>
          r = None \<and> length (workers s) = length (files p) \<and> listener s = Exited)"

text \<open>
  A run without candidates: the loop is at its head or at the receive of line 240,
  no worker exists, and nothing was added to the accesses of the start.
\<close>

definition idle :: "event list \<Rightarrow> Sys \<Rightarrow> bool" where
  "idle evs s =
     ((pc s = AtLoop 0 \<or> pc s = AtDrain) \<and> workers s = [] \<and> listener s = Listening \<and>
      crashed s = None \<and> trace s = evs)"

text \<open>A GridFS provider, for the sample runs.\<close>

definition sample_gridfs :: GridFSProvider where
  "sample_gridfs = \<lparr>Database = ''rocketchat'', TempFileLocation = ''/tmp/uploads''\<rparr>"

section \<open>Helper lemmas\<close>

lemmas sample_defs = sample_m_def sample_w_def sample_file_def sample_store_def

lemmas run_defs =
  MigrateStore_def MigrateStore_start_def getFiles_def step_def migrateWorker_def
  pushAndRecord_def getObjectPath_def fixFileForUpload_def defaultOwners_def Let_def
  IsZero_def ToLower_def toLowerChar_def

lemma ToLower_Uploads: "ToLower ''Uploads'' = ''uploads''"
  by (simp add: ToLower_def toLowerChar_def)

lemma ToLower_Avatars: "ToLower ''Avatars'' = ''avatars''"
  by (simp add: ToLower_def toLowerChar_def)

lemma getObjectPath_defaultOwners:
  assumes "destinationStore m = Some dst"
  shows "getObjectPath m (defaultOwners m f) =
     Inr (if StoreType dst = ''FileSystem'' then ID f
          else if storeName m = ''Uploads'' then
            uniqueID m @ ''/uploads/'' @ (if Rid f = '''' then ''undefined'' else Rid f) @
            ''/'' @ (if UserID f = '''' then ''undefined'' else UserID f) @ ''/'' @ ID f
          else if storeName m = ''Avatars'' then
            uniqueID m @ ''/avatars/'' @ (if UserID f = '''' then ''undefined'' else UserID f)
          else '''')"
  using assms
  by (simp add: getObjectPath_def defaultOwners_def Let_def ToLower_Uploads ToLower_Avatars)

lemma fixFileForUpload_bound:
  "destinationStore m = Some dst \<Longrightarrow> \<exists>g u. fixFileForUpload m f p = Inr (g, u)"
  by (simp add: fixFileForUpload_def Let_def split: prod.splits)

lemma Type_defaultOwners: "Type (defaultOwners m f) = Type f"
  by (simp add: defaultOwners_def Let_def)

text \<open>
  With a destination bound, the push is the first thing the shared tail of the
  pipeline does, to the path \<open>getObjectPath\<close> computes, and the tail never ends in
  a skip.
\<close>

lemma pushAndRecord_pushes:
  assumes "destinationStore m = Some dst" and "getObjectPath m f = Inr p"
  shows "\<exists>rest out. pushAndRecord m w f localPath =
           (EvUpload p localPath (Type f) # rest, out) \<and> (\<forall>e. out \<noteq> SkippedFetch e)"
proof -
  obtain g u where g: "fixFileForUpload m f p = Inr (g, u)"
    using fixFileForUpload_bound [OF assms(1)] by blast
  show ?thesis
    by (cases "Upload dst p localPath (Type f)";
        cases "collection_UpdateOne w (fileCollectionName m) (ID g) g u")
       (simp_all add: pushAndRecord_def assms g)
qed

text \<open>
  \<open>getFiles\<close> leaves the bindings and the category as they are, and its query asks
  for the descriptor of the source's kind.
\<close>

lemma getFiles_keeps:
  "getFiles m w = (m', evs, r) \<Longrightarrow>
     sourceStore m' = sourceStore m \<and> destinationStore m' = destinationStore m \<and>
     storeName m' = storeName m"
  by (auto simp: getFiles_def Let_def split: if_splits option.splits sum.splits)

lemma getFiles_query:
  "getFiles m w = (m', evs, r) \<Longrightarrow> EvFind c q \<in> set evs \<Longrightarrow> sourceStore m = Some src \<Longrightarrow>
     q_store q = StoreType src @ '':'' @ storeName m"
  by (auto simp: getFiles_def Let_def split: if_splits option.splits sum.splits)

lemma fixFileForUpload_Store:
  "destinationStore m = Some dst \<Longrightarrow> fixFileForUpload m f p = Inr (f', u) \<Longrightarrow>
     Store f' = StoreType dst @ '':'' @ storeName m \<and> ID f' = ID f"
  by (auto simp: fixFileForUpload_def Let_def split: if_splits)

lemma ID_defaultOwners: "ID (defaultOwners m f) = ID f"
  by (simp add: defaultOwners_def Let_def)

text \<open>
  A record ends \<open>Succeeded\<close> only after its catalog update: the accesses are the
  push and then the update that writes the record as \<open>fixFileForUpload\<close> left it.
\<close>

lemma pushAndRecord_Succeeded:
  assumes "destinationStore m = Some dst" and "snd (pushAndRecord m w f l) = Succeeded"
  shows "\<exists>p f' u. getObjectPath m f = Inr p \<and> fixFileForUpload m f p = Inr (f', u) \<and>
           fst (pushAndRecord m w f l) =
             [EvUpload p l (Type f), EvUpdateOne (fileCollectionName m) (ID f') f' u]"
  using assms
  by (auto simp: pushAndRecord_def split: sum.splits option.splits prod.splits)

lemma migrateWorker_Succeeded:
  assumes "destinationStore m = Some dst" and "snd (migrateWorker m w f) = Succeeded"
  shows "\<exists>p l f' u. fixFileForUpload m (defaultOwners m f) p = Inr (f', u) \<and>
           fst (migrateWorker m w f) =
             [EvDownload (fileCollectionName m) f, EvUpload p l (Type f),
              EvUpdateOne (fileCollectionName m) (ID f) f' u]"
proof -
  from assms(2) obtain src l where src: "sourceStore m = Some src" and c: "Complete f"
    and d: "Download src (fileCollectionName m) f = Inr l"
    and s: "snd (pushAndRecord m w (defaultOwners m f) l) = Succeeded"
    by (auto simp: migrateWorker_def split: option.splits if_splits sum.splits prod.splits)
  from pushAndRecord_Succeeded [OF assms(1) s] obtain p f' u where
    fx: "fixFileForUpload m (defaultOwners m f) p = Inr (f', u)" and
    ev: "fst (pushAndRecord m w (defaultOwners m f) l) =
           [EvUpload p l (Type (defaultOwners m f)),
            EvUpdateOne (fileCollectionName m) (ID f') f' u]"
    by blast
  have "ID f' = ID f"
    using fixFileForUpload_Store [OF assms(1) fx] by (simp add: ID_defaultOwners)
  with src c d ev fx show ?thesis
    by (cases "pushAndRecord m w (defaultOwners m f) l")
       (auto simp: migrateWorker_def Type_defaultOwners)
qed

text \<open>
  An error that a worker sends to the error channel while the listener waits ends the
  process with that error.
\<close>

lemma fatal_error_ends_run:
  assumes "crashed s = None" and "listener s = Listening" and "k < length (workers s)"
    and "workers s ! k = SendingErr err"
  shows "step p w (RecvErr k) s = Some (s\<lparr>crashed := Some err\<rparr>)"
  using assms by (simp add: step_def)

text \<open>
  In a run, a failed fetch of a complete record leaves its worker at the send to the
  completion channel when the error is not-found or the skip-policy flag is set, and
  at the send to the error channel otherwise.
\<close>

lemma failed_fetch_step:
  assumes "crashed s = None" and "k < length (workers s)" and "k < length (files p)"
    and "workers s ! k = Running"
    and "sourceStore (plan_m p) = Some src" and "Complete (files p ! k)"
    and "Download src (fileCollectionName (plan_m p)) (files p ! k) = Inl err"
  shows "step p w (Work k) s =
     Some (s\<lparr>workers := (workers s)
                 [k := if err = ErrNotFound \<or> skipErrors (plan_m p) then SendingDone
                       else SendingErr err],
             trace := trace s @ [EvDownload (fileCollectionName (plan_m p)) (files p ! k)]\<rparr>)"
  using assms by (simp add: step_def migrateWorker_def)

section \<open>Error policy of the fetch\<close>

text \<open>
  In the worker of \<open>MigrateStore\<close>, when the fetch of a complete record fails: if
  the error is the not-found error of the source, the worker signals completion,
  whatever the skip-policy flag; any other error is sent to the error channel when the
  flag is unset, and the worker signals completion when the flag is set. Nothing but
  the fetch was attempted.
\<close>

lemma failed_fetch_outcome:
  assumes "sourceStore m = Some src" and "Complete f"
    and "Download src (fileCollectionName m) f = Inl err"
  shows "migrateWorker m w f =
     ([EvDownload (fileCollectionName m) f],
      if err = ErrNotFound then SkippedFetch err
      else if skipErrors m then SkippedFetch err
      else Fatal err)"
  using assms by (simp add: migrateWorker_def)

text \<open>
  C3, evaluated on the code. A fetch error other than not-found, with the skip-policy
  flag unset, is sent to the error channel (line 191), whose listener panics with the
  first value it receives. The loop, however, sends nil to the listener after a single
  completion signal (lines 240 to 242). With the complete records \<open>a\<close>, \<open>broken\<close>
  and \<open>c\<close>, the default limit and the flag unset, where the fetch of \<open>broken\<close>
  fails with a connection error: the third worker completes, the loop receives its
  signal, releases the listener and returns nil; the second worker then fails and
  stays blocked at its send, which nothing receives. The run is not aborted.
\<close>

theorem fetch_error_lost:
  "skipErrors (sample_m ''Uploads'' ''AmazonS3'' ''GoogleCloudStorage'' False) = False \<and>
   Download (sample_store ''AmazonS3'') ''rocketchat_uploads'' (sample_file ''broken'' True) =
     Inl (ErrOther ''connection reset'') \<and>
   map_option pc
     (MigrateStore (sample_m ''Uploads'' ''AmazonS3'' ''GoogleCloudStorage'' False)
        (sample_w [sample_file ''a'' True, sample_file ''broken'' True, sample_file ''c'' True] None)
        [Main, Main, Work 0, RecvDone 0, Main, Main, Main, Main, Work 2, RecvDone 2, SendNil,
         Work 1]) = Some (Returned None) \<and>
   map_option workers
     (MigrateStore (sample_m ''Uploads'' ''AmazonS3'' ''GoogleCloudStorage'' False)
        (sample_w [sample_file ''a'' True, sample_file ''broken'' True, sample_file ''c'' True] None)
        [Main, Main, Work 0, RecvDone 0, Main, Main, Main, Main, Work 2, RecvDone 2, SendNil,
         Work 1]) =
     Some [Finished, SendingErr (ErrOther ''connection reset''), Finished] \<and>
   map_option crashed
     (MigrateStore (sample_m ''Uploads'' ''AmazonS3'' ''GoogleCloudStorage'' False)
        (sample_w [sample_file ''a'' True, sample_file ''broken'' True, sample_file ''c'' True] None)
        [Main, Main, Work 0, RecvDone 0, Main, Main, Main, Main, Work 2, RecvDone 2, SendNil,
         Work 1]) = Some None \<and>
   MigrateStore (sample_m ''Uploads'' ''AmazonS3'' ''GoogleCloudStorage'' False)
     (sample_w [sample_file ''a'' True, sample_file ''broken'' True, sample_file ''c'' True] None)
     [Main, Main, Work 0, RecvDone 0, Main, Main, Main, Main, Work 2, RecvDone 2, SendNil,
      Work 1, RecvErr 1] = None"
  by (simp add: run_defs sample_defs)

section \<open>Record mutation\<close>

text \<open>
  C4, as the code has it. After \<open>fixFileForUpload\<close> for a destination of kind K,
  the served URL and path are \<open>/ufs/K:category/recordId/name\<close> and the backend
  descriptor is \<open>K:category\<close>. When K is AmazonS3, the AmazonS3 sub-object holds
  the destination path, the GoogleStorage sub-object is cleared and named for
  removal; when K is GoogleCloudStorage, the same with the two exchanged. For any
  other kind (the plain filesystem among them) both sub-objects are left as they
  were and nothing is named for removal.
\<close>

theorem fixFileForUpload_mutation:
  assumes "destinationStore m = Some dst"
  shows "\<exists>f' unset. fixFileForUpload m f objectPath = Inr (f', unset) \<and>
     URL f' = ''/ufs/'' @ StoreType dst @ '':'' @ storeName m @ ''/'' @ ID f @ ''/'' @ Name f \<and>
     Path f' = URL f' \<and>
     Store f' = StoreType dst @ '':'' @ storeName m \<and>
     (StoreType dst = ''AmazonS3'' \<longrightarrow>
        AmazonS3_Path (AmazonS3 f') = objectPath \<and>
        GoogleStorage_Path (GoogleStorage f') = '''' \<and> unset = ''GoogleStorage'') \<and>
     (StoreType dst = ''GoogleCloudStorage'' \<longrightarrow>
        GoogleStorage_Path (GoogleStorage f') = objectPath \<and>
        AmazonS3_Path (AmazonS3 f') = '''' \<and> unset = ''AmazonS3'') \<and>
     (StoreType dst \<noteq> ''AmazonS3'' \<and> StoreType dst \<noteq> ''GoogleCloudStorage'' \<longrightarrow>
        AmazonS3 f' = AmazonS3 f \<and> GoogleStorage f' = GoogleStorage f \<and>
        unset = '''')"
  using assms by (simp add: fixFileForUpload_def Let_def)

theorem fixFileForUpload_mutation_witness:
  "\<exists>f' unset.
     fixFileForUpload (sample_m ''Uploads'' ''GoogleCloudStorage'' ''AmazonS3'' False)
       ((sample_file ''f1'' True)\<lparr>GoogleStorage := \<lparr>GoogleStorage_Path = ''old/f1''\<rparr>\<rparr>)
       ''inst/uploads/r/u1/f1'' = Inr (f', unset) \<and>
     URL f' = ''/ufs/AmazonS3:Uploads/f1/a.png'' \<and>
     Path f' = URL f' \<and>
     Store f' = ''AmazonS3:Uploads'' \<and>
     AmazonS3_Path (AmazonS3 f') = ''inst/uploads/r/u1/f1'' \<and>
     GoogleStorage_Path (GoogleStorage f') = '''' \<and>
     unset = ''GoogleStorage''"
  using fixFileForUpload_mutation
    [where m = "sample_m ''Uploads'' ''GoogleCloudStorage'' ''AmazonS3'' False"
       and dst = "sample_store ''AmazonS3''"
       and f = "(sample_file ''f1'' True)\<lparr>GoogleStorage := \<lparr>GoogleStorage_Path = ''old/f1''\<rparr>\<rparr>"
       and objectPath = "''inst/uploads/r/u1/f1''"]
  by (simp add: sample_defs)

text \<open>
  The claim as stated fails for the plain filesystem kind: a record that comes from
  AmazonS3 keeps its AmazonS3 sub-object, and nothing is named for removal.
\<close>

theorem fixFileForUpload_FileSystem_counterexample:
  "fixFileForUpload (sample_m ''Uploads'' ''AmazonS3'' ''FileSystem'' False)
     (sample_file ''f1'' True) ''f1'' =
   Inr (\<lparr>ID = ''f1'', Name = ''a.png'', Type = ''image/png'', Rid = '''', UserID = ''u1'',
         Complete = True, UploadedAt = 5, Store = ''FileSystem:Uploads'',
         AmazonS3 = \<lparr>AmazonS3_Path = ''old/f1''\<rparr>,
         GoogleStorage = \<lparr>GoogleStorage_Path = ''''\<rparr>,
         URL = ''/ufs/FileSystem:Uploads/f1/a.png'',
         Path = ''/ufs/FileSystem:Uploads/f1/a.png''\<rparr>, '''')"
  by (simp add: sample_defs fixFileForUpload_def Let_def)

section \<open>Destination path\<close>

text \<open>
  C5. In the pipeline of \<open>MigrateStore\<close>, for a complete record whose fetch
  succeeded, the path computed and pushed to is: the record id when the destination is
  of the plain filesystem kind, whatever the category; otherwise, for the category
  Uploads, \<open>namespace/uploads/roomId/userId/recordId\<close>, and for the category
  Avatars, \<open>namespace/avatars/userId\<close>, where an empty room id and an empty user id
  are each replaced by \<open>undefined\<close>.
\<close>

theorem pipeline_destination_path:
  assumes "sourceStore m = Some src" and "destinationStore m = Some dst"
    and "Complete f" and "Download src (fileCollectionName m) f = Inr localPath"
  shows "\<exists>p rest.
     p = (if StoreType dst = ''FileSystem'' then ID f
          else if storeName m = ''Uploads'' then
            uniqueID m @ ''/uploads/'' @ (if Rid f = '''' then ''undefined'' else Rid f) @
            ''/'' @ (if UserID f = '''' then ''undefined'' else UserID f) @ ''/'' @ ID f
          else if storeName m = ''Avatars'' then
            uniqueID m @ ''/avatars/'' @ (if UserID f = '''' then ''undefined'' else UserID f)
          else '''') \<and>
     getObjectPath m (defaultOwners m f) = Inr p \<and>
     fst (migrateWorker m w f) =
       EvDownload (fileCollectionName m) f # EvUpload p localPath (Type f) # rest"
proof -
  let ?f = "defaultOwners m f"
  obtain p where p: "getObjectPath m ?f = Inr p"
    and eq: "p = (if StoreType dst = ''FileSystem'' then ID f
          else if storeName m = ''Uploads'' then
            uniqueID m @ ''/uploads/'' @ (if Rid f = '''' then ''undefined'' else Rid f) @
            ''/'' @ (if UserID f = '''' then ''undefined'' else UserID f) @ ''/'' @ ID f
          else if storeName m = ''Avatars'' then
            uniqueID m @ ''/avatars/'' @ (if UserID f = '''' then ''undefined'' else UserID f)
          else '''')"
    using getObjectPath_defaultOwners [OF assms(2), of f] by blast
  obtain rest out where pr:
    "pushAndRecord m w ?f localPath = (EvUpload p localPath (Type f) # rest, out)"
    using pushAndRecord_pushes [OF assms(2) p, of w localPath]
    by (auto simp: Type_defaultOwners)
  have "fst (migrateWorker m w f) =
          EvDownload (fileCollectionName m) f # EvUpload p localPath (Type f) # rest"
    using assms(1,3,4) pr by (simp add: migrateWorker_def)
  with p eq show ?thesis by blast
qed

theorem pipeline_destination_path_witness:
  "getObjectPath ((sample_m ''Avatars'' ''AmazonS3'' ''GoogleCloudStorage'' False)\<lparr>uniqueID := ''inst''\<rparr>)
     (defaultOwners ((sample_m ''Avatars'' ''AmazonS3'' ''GoogleCloudStorage'' False)\<lparr>uniqueID := ''inst''\<rparr>)
        ((sample_file ''f1'' True)\<lparr>UserID := ''''\<rparr>)) =
   Inr ''inst/avatars/undefined''"
  using pipeline_destination_path
    [where m = "(sample_m ''Avatars'' ''AmazonS3'' ''GoogleCloudStorage'' False)\<lparr>uniqueID := ''inst''\<rparr>"
       and src = "sample_store ''AmazonS3''" and dst = "sample_store ''GoogleCloudStorage''"
       and f = "(sample_file ''f1'' True)\<lparr>UserID := ''''\<rparr>" and localPath = "''/tmp/f1''"
       and w = "sample_w [] None"]
  by (simp add: sample_defs)

section \<open>Re-selection of migrated records\<close>

text \<open>
  C8. A run selects its candidates with the query of \<open>getFiles\<close>, which asks for
  the backend descriptor \<open>sourceKind:category\<close>. A record that the worker of
  \<open>MigrateStore\<close> migrates with success is written back to the catalog, by the
  update that ends the worker's accesses, with the descriptor rewritten to
  \<open>destinationKind:category\<close>. So when the two kinds differ, the record as written
  back does not match the query that \<open>getFiles\<close> builds in a later run with the same
  configuration, with or without a resumption offset.
\<close>

theorem migrated_record_not_reselected:
  assumes "sourceStore m = Some src" and "destinationStore m = Some dst"
    and "StoreType src \<noteq> StoreType dst"
    and "getFiles m w = (m', evs, r)"
    and "snd (migrateWorker m' w f) = Succeeded"
    and "getFiles m w2 = (m2, evs2, r2)" and "EvFind c q \<in> set evs2"
  shows "\<exists>p l f' unset.
     fst (migrateWorker m' w f) =
       [EvDownload (fileCollectionName m') f, EvUpload p l (Type f),
        EvUpdateOne (fileCollectionName m') (ID f) f' unset] \<and>
     Store f' = StoreType dst @ '':'' @ storeName m \<and>
     q_store q = StoreType src @ '':'' @ storeName m \<and>
     \<not> query_matches q f'"
proof -
  have k: "destinationStore m' = Some dst" "storeName m' = storeName m"
    using getFiles_keeps [OF assms(4)] assms(2) by simp_all
  from migrateWorker_Succeeded [OF k(1) assms(5)] obtain p l f' u where
    fx: "fixFileForUpload m' (defaultOwners m' f) p = Inr (f', u)" and
    ev: "fst (migrateWorker m' w f) =
             [EvDownload (fileCollectionName m') f, EvUpload p l (Type f),
              EvUpdateOne (fileCollectionName m') (ID f) f' u]"
    by blast
  have s: "Store f' = StoreType dst @ '':'' @ storeName m"
    using fixFileForUpload_Store [OF k(1) fx] k(2) by simp
  have q: "q_store q = StoreType src @ '':'' @ storeName m"
    using getFiles_query [OF assms(6,7,1)] .
  have "\<not> query_matches q f'"
    using s q assms(3) by (simp add: query_matches_def)
  with ev s q show ?thesis by blast
qed

theorem migrated_record_not_reselected_witness:
  "\<exists>p l f' unset.
     fst (migrateWorker
            ((sample_m ''Uploads'' ''AmazonS3'' ''GoogleCloudStorage'' False)
               \<lparr>fileCollectionName := ''rocketchat_uploads'', uniqueID := ''inst''\<rparr>)
            (sample_w [sample_file ''f1'' True] None) (sample_file ''f1'' True)) =
       [EvDownload ''rocketchat_uploads'' (sample_file ''f1'' True),
        EvUpload p l ''image/png'',
        EvUpdateOne ''rocketchat_uploads'' ''f1'' f' unset] \<and>
     Store f' = ''GoogleCloudStorage:Uploads'' \<and>
     \<not> query_matches \<lparr>q_store = ''AmazonS3:Uploads'', q_uploadedAt_gte = None\<rparr> f'"
proof -
  let ?m = "sample_m ''Uploads'' ''AmazonS3'' ''GoogleCloudStorage'' False"
  let ?m' = "?m\<lparr>fileCollectionName := ''rocketchat_uploads'', uniqueID := ''inst''\<rparr>"
  let ?w = "sample_w [sample_file ''f1'' True] None"
  let ?q = "\<lparr>q_store = ''AmazonS3:Uploads'', q_uploadedAt_gte = None\<rparr>"
  let ?evs = "[EvConnect ''mongodb://db'', EvFindOne ''rocketchat_settings'',
               EvFind ''rocketchat_uploads'' ?q]"
  have h1: "sourceStore ?m = Some (sample_store ''AmazonS3'')"
    by (simp add: sample_m_def)
  have h2: "destinationStore ?m = Some (sample_store ''GoogleCloudStorage'')"
    by (simp add: sample_m_def)
  have h3: "StoreType (sample_store ''AmazonS3'') \<noteq> StoreType (sample_store ''GoogleCloudStorage'')"
    by (simp add: sample_store_def)
  have h4: "getFiles ?m ?w = (?m', ?evs, Inr [sample_file ''f1'' True])"
    by (simp add: sample_defs getFiles_def Let_def IsZero_def)
  have h5: "snd (migrateWorker ?m' ?w (sample_file ''f1'' True)) = Succeeded"
    by (simp add: run_defs sample_defs)
  have h6: "EvFind ''rocketchat_uploads'' ?q \<in> set ?evs"
    by simp
  have c: "fileCollectionName ?m' = ''rocketchat_uploads''"
    "ID (sample_file ''f1'' True) = ''f1''" "Type (sample_file ''f1'' True) = ''image/png''"
    "storeName ?m = ''Uploads''" "StoreType (sample_store ''AmazonS3'') = ''AmazonS3''"
    "StoreType (sample_store ''GoogleCloudStorage'') = ''GoogleCloudStorage''"
    by (simp_all add: sample_defs)
  from migrated_record_not_reselected [OF h1 h2 h3 h4 h5 h4 h6]
  show ?thesis by (simp add: c)
qed

section \<open>Incomplete records\<close>

text \<open>
  C9. A record whose completion flag is false causes no fetch, no push and no catalog
  update in any of the three modes: the worker of \<open>MigrateStore\<close>, the worker of
  \<open>DownloadAll\<close> and the loop body of \<open>UploadAll\<close> make no access for it. With
  the mode's provider bound, the record ends skipped, not in an error (in
  \<open>UploadAll\<close> it is skipped as missing when its staged file is absent, which is
  tested first).
\<close>

theorem incomplete_record_skipped:
  assumes "\<not> Complete f"
  shows "fst (migrateWorker m w f) = [] \<and>
         fst (downloadWorker m f) = [] \<and>
         fst (uploadOne m w filesRoot f) = [] \<and>
         (sourceStore m \<noteq> None \<longrightarrow>
            snd (migrateWorker m w f) = SkippedIncomplete \<and>
            snd (downloadWorker m f) = SkippedIncomplete) \<and>
         (destinationStore m \<noteq> None \<longrightarrow>
            snd (uploadOne m w filesRoot f) =
              (if Stat_IsNotExist w (filesRoot @ ''/'' @ ID f) then SkippedMissing
               else SkippedIncomplete))"
  using assms
  by (auto simp: migrateWorker_def downloadWorker_def uploadOne_def Let_def split: option.splits)

theorem incomplete_record_skipped_witness:
  "fst (migrateWorker (sample_m ''Uploads'' ''AmazonS3'' ''GoogleCloudStorage'' False)
          (sample_w [] None) (sample_file ''f1'' False)) = [] \<and>
   fst (downloadWorker (sample_m ''Uploads'' ''AmazonS3'' ''GoogleCloudStorage'' False)
          (sample_file ''f1'' False)) = [] \<and>
   fst (uploadOne (sample_m ''Uploads'' ''AmazonS3'' ''GoogleCloudStorage'' False)
          (sample_w [] None) ''/data/uploads'' (sample_file ''f1'' False)) = [] \<and>
   snd (migrateWorker (sample_m ''Uploads'' ''AmazonS3'' ''GoogleCloudStorage'' False)
          (sample_w [] None) (sample_file ''f1'' False)) = SkippedIncomplete \<and>
   snd (downloadWorker (sample_m ''Uploads'' ''AmazonS3'' ''GoogleCloudStorage'' False)
          (sample_file ''f1'' False)) = SkippedIncomplete \<and>
   snd (uploadOne (sample_m ''Uploads'' ''AmazonS3'' ''GoogleCloudStorage'' False)
          (sample_w [] None) ''/data/uploads'' (sample_file ''f1'' False)) = SkippedIncomplete"
proof -
  let ?m = "sample_m ''Uploads'' ''AmazonS3'' ''GoogleCloudStorage'' False"
  have h: "\<not> Complete (sample_file ''f1'' False)"
    by (simp add: sample_file_def)
  have s: "sourceStore ?m \<noteq> None" and d: "destinationStore ?m \<noteq> None"
    by (simp_all add: sample_m_def)
  have n: "\<not> Stat_IsNotExist (sample_w [] None) (''/data/uploads'' @ ''/'' @ ID (sample_file ''f1'' False))"
    by (simp add: sample_w_def)
  from incomplete_record_skipped [OF h, of ?m "sample_w [] None" "''/data/uploads''"] s d n
  show ?thesis by simp
qed

section \<open>GridFS as the source\<close>

text \<open>
  C10. \<open>GridFSProvider.Download\<close> returns the empty path and no error for every
  collection and record. So in a run of \<open>MigrateStore\<close> whose source is the GridFS
  provider no record ends skipped for a failed fetch, and for every complete record
  the push that follows the fetch is given the empty string as its local path.
\<close>

theorem GridFS_source_run:
  assumes "sourceStore m = Some (GridFS_binding g)" and "destinationStore m = Some dst"
  shows "GridFSProvider_Download g c f = Inr '''' \<and>
     snd (migrateWorker m w f) \<noteq> SkippedFetch e \<and>
     (if Complete f then
        (\<exists>objectPath rest. fst (migrateWorker m w f) =
           EvDownload (fileCollectionName m) f # EvUpload objectPath '''' (Type f) # rest)
      else fst (migrateWorker m w f) = [])"
proof -
  obtain p where p: "getObjectPath m (defaultOwners m f) = Inr p"
    using getObjectPath_defaultOwners [OF assms(2)] by blast
  obtain rest out where pr: "pushAndRecord m w (defaultOwners m f) '''' =
           (EvUpload p '''' (Type f) # rest, out)" and out: "out \<noteq> SkippedFetch e"
    using pushAndRecord_pushes [OF assms(2) p, of w "''''"]
    by (auto simp: Type_defaultOwners)
  show ?thesis
    using assms(1) pr out
    by (simp add: migrateWorker_def GridFS_binding_def GridFSProvider_Download_def)
qed

theorem GridFS_source_run_witness:
  "GridFSProvider_Download sample_gridfs ''rocketchat_uploads'' (sample_file ''f1'' True) = Inr '''' \<and>
   snd (migrateWorker
          ((sample_m ''Uploads'' ''GridFS'' ''AmazonS3'' False)
             \<lparr>sourceStore := Some (GridFS_binding sample_gridfs)\<rparr>)
          (sample_w [] None) (sample_file ''f1'' True)) \<noteq> SkippedFetch ErrNotFound \<and>
   (\<exists>objectPath rest.
      fst (migrateWorker
             ((sample_m ''Uploads'' ''GridFS'' ''AmazonS3'' False)
                \<lparr>sourceStore := Some (GridFS_binding sample_gridfs)\<rparr>)
             (sample_w [] None) (sample_file ''f1'' True)) =
      EvDownload '''' (sample_file ''f1'' True) # EvUpload objectPath '''' ''image/png'' # rest)"
proof -
  let ?m = "(sample_m ''Uploads'' ''GridFS'' ''AmazonS3'' False)
             \<lparr>sourceStore := Some (GridFS_binding sample_gridfs)\<rparr>"
  have s: "sourceStore ?m = Some (GridFS_binding sample_gridfs)"
    by simp
  have d: "destinationStore ?m = Some (sample_store ''AmazonS3'')"
    by (simp add: sample_m_def)
  have c: "Complete (sample_file ''f1'' True)" "Type (sample_file ''f1'' True) = ''image/png''"
    by (simp_all add: sample_file_def)
  have n: "fileCollectionName ?m = ''''"
    by (simp add: sample_m_def)
  from GridFS_source_run [OF s d, of "''rocketchat_uploads''" "sample_file ''f1'' True"
      "sample_w [] None" ErrNotFound]
  show ?thesis by (simp add: c n)
qed

section \<open>The scheduling loop\<close>

lemma step_Main_inv:
  "step p w Main s = Some s' \<Longrightarrow> loop_inv p s \<Longrightarrow> loop_inv p s'"
  by (cases "pc s") (auto simp: step_def loop_inv_def split: if_splits)

lemma step_Work_inv:
  "step p w (Work k) s = Some s' \<Longrightarrow> loop_inv p s \<Longrightarrow> loop_inv p s'"
  by (cases "migrateWorker (plan_m p) w (files p ! k)";
      cases "snd (migrateWorker (plan_m p) w (files p ! k))")
     (auto simp: step_def loop_inv_def split: if_splits mpc.splits)

lemma step_RecvDone_inv:
  "step p w (RecvDone k) s = Some s' \<Longrightarrow> loop_inv p s \<Longrightarrow> loop_inv p s'"
  by (cases "pc s") (auto simp: step_def loop_inv_def split: if_splits)

lemma step_RecvErr_inv:
  "step p w (RecvErr k) s = Some s' \<Longrightarrow> loop_inv p s \<Longrightarrow> loop_inv p s'"
  by (cases "workers s ! k") (auto simp: step_def loop_inv_def split: if_splits mpc.splits)

lemma step_SendNil_inv:
  "step p w SendNil s = Some s' \<Longrightarrow> loop_inv p s \<Longrightarrow> loop_inv p s'"
  by (auto simp: step_def loop_inv_def split: if_splits)

lemma step_inv: "step p w a s = Some s' \<Longrightarrow> loop_inv p s \<Longrightarrow> loop_inv p s'"
  by (cases a)
     (auto intro: step_Main_inv step_Work_inv step_RecvDone_inv step_RecvErr_inv step_SendNil_inv)

lemma exec_inv: "exec p w sched s = Some s' \<Longrightarrow> loop_inv p s \<Longrightarrow> loop_inv p s'"
proof (induction sched arbitrary: s)
  case Nil
  then show ?case by simp
next
  case (Cons a sched)
  then show ?case by (auto split: option.splits dest: step_inv)
qed

lemma step_idle:
  "files p = [] \<Longrightarrow> step p w a s = Some s' \<Longrightarrow> idle evs s \<Longrightarrow> idle evs s'"
  by (cases a) (auto simp: step_def idle_def split: if_splits)

lemma exec_idle:
  "files p = [] \<Longrightarrow> exec p w sched s = Some s' \<Longrightarrow> idle evs s \<Longrightarrow> idle evs s'"
proof (induction sched arbitrary: s)
  case Nil
  then show ?case by simp
next
  case (Cons a sched)
  then show ?case by (auto split: option.splits dest: step_idle)
qed

lemma getFiles_no_transfer:
  "getFiles m w = (m', evs, r) \<Longrightarrow> filter is_transfer evs = []"
  by (auto simp: getFiles_def Let_def split: if_splits option.splits sum.splits)

text \<open>
  C1, evaluated on the code. With the limit 1 (\<open>MAX_CONCURRENCY\<close> unset) and three
  complete candidate records, the loop waits once, before the second launch (line 166
  tests \<open>i == maxConcurrency\<close>), and launches the third worker without waiting: after
  the schedule below the second and the third worker are both launched and neither
  has run its body, so two transfers are in flight under the limit 1.
\<close>

theorem MigrateStore_exceeds_limit:
  "(case snd (MigrateStore_start (sample_m ''Uploads'' ''AmazonS3'' ''GoogleCloudStorage'' False)
       (sample_w [sample_file ''a'' True, sample_file ''b'' True, sample_file ''c'' True] None)) of
      Inl err \<Rightarrow> False
    | Inr p \<Rightarrow> maxConcurrency p = 1 \<and> length (files p) = 3) \<and>
   map_option workers
     (MigrateStore (sample_m ''Uploads'' ''AmazonS3'' ''GoogleCloudStorage'' False)
        (sample_w [sample_file ''a'' True, sample_file ''b'' True, sample_file ''c'' True] None)
        [Main, Main, Work 0, RecvDone 0, Main, Main, Main]) =
     Some [Finished, Running, Running] \<and>
   map_option in_flight
     (MigrateStore (sample_m ''Uploads'' ''AmazonS3'' ''GoogleCloudStorage'' False)
        (sample_w [sample_file ''a'' True, sample_file ''b'' True, sample_file ''c'' True] None)
        [Main, Main, Work 0, RecvDone 0, Main, Main, Main]) = Some 2"
  by (simp add: run_defs sample_defs in_flight_def)

text \<open>
  What \<open>MigrateStore\<close> returns is an error value and nothing else: the error of its
  start, or nil once the loop has launched a worker for every candidate record and has
  released the listener with nil. No count of migrated or skipped records is part of
  the result.
\<close>

lemma MigrateStore_return_value:
  assumes "MigrateStore m w sched = Some s" and "pc s = Returned r"
  shows "case MigrateStore_start m w of
           (evs, Inl err) \<Rightarrow> r = Some err \<and> workers s = [] \<and> trace s = evs
         | (evs, Inr p) \<Rightarrow>
             r = None \<and> listener s = Exited \<and> length (workers s) = length (files p)"
proof (cases "MigrateStore_start m w")
  case (Pair evs res)
  show ?thesis
  proof (cases res)
    case (Inl err)
    with Pair assms show ?thesis
      by (auto simp: MigrateStore_def split: if_splits)
  next
    case (Inr p)
    let ?s0 = "\<lparr>pc = AtLoop 0, workers = [], listener = Listening, crashed = None, trace = evs\<rparr>"
    have "exec p w sched ?s0 = Some s"
      using assms(1) Pair Inr by (simp add: MigrateStore_def)
    moreover have "loop_inv p ?s0"
      by (simp add: loop_inv_def)
    ultimately have "loop_inv p s"
      by (rule exec_inv)
    with assms(2) Pair Inr show ?thesis
      by (simp add: loop_inv_def)
  qed
qed

text \<open>
  C2, evaluated on the code. After its loop \<open>MigrateStore\<close> receives a single
  completion signal (line 240), releases the listener and returns nil; it does not
  wait for the other workers, as \<open>DownloadAll\<close> does with its wait group. With two
  complete records and the limit 2, it returns nil while the second worker has not
  run, and no error was reported. The value returned is the nil error: no count of
  migrated or skipped records comes with it.
\<close>

theorem MigrateStore_returns_before_drain:
  "map_option pc
     (MigrateStore (sample_m ''Uploads'' ''AmazonS3'' ''GoogleCloudStorage'' False)
        (sample_w [sample_file ''a'' True, sample_file ''b'' True] (Some ''2''))
        [Main, Main, Main, Main, Main, Work 0, RecvDone 0, SendNil]) = Some (Returned None) \<and>
   map_option workers
     (MigrateStore (sample_m ''Uploads'' ''AmazonS3'' ''GoogleCloudStorage'' False)
        (sample_w [sample_file ''a'' True, sample_file ''b'' True] (Some ''2''))
        [Main, Main, Main, Main, Main, Work 0, RecvDone 0, SendNil]) = Some [Finished, Running] \<and>
   map_option crashed
     (MigrateStore (sample_m ''Uploads'' ''AmazonS3'' ''GoogleCloudStorage'' False)
        (sample_w [sample_file ''a'' True, sample_file ''b'' True] (Some ''2''))
        [Main, Main, Main, Main, Main, Work 0, RecvDone 0, SendNil]) = Some None"
  by (simp add: run_defs sample_defs)

section \<open>An empty candidate set\<close>

text \<open>
  C6, evaluated on the code. When the catalog answers the candidate query with an
  empty result (no error from \<open>Find\<close>, no record from the cursor), \<open>getFiles\<close>
  returns the empty list and no error; \<open>MigrateStore\<close> then launches nothing and
  blocks at the receive of line 240: under no schedule does it return, so no error is
  reported. No transfer is made.
\<close>

theorem no_candidates_never_returns:
  assumes "sourceStore m = Some src" and "destinationStore m = Some dst"
    and "storeName m = ''Uploads'' \<or> storeName m = ''Avatars''"
    and "connectDB w (connectionString m) = None" and "settings_FindOne w = Inr v"
    and "\<And>c q. collection_Find w c q = Inr (Inr [])"
    and "LookupEnv w ''MAX_CONCURRENCY'' = None"
    and "MigrateStore m w sched = Some s"
  shows "(\<exists>m' evs. getFiles m w = (m', evs, Inr [])) \<and>
         pc s \<noteq> Returned r \<and> workers s = [] \<and> crashed s = None \<and>
         filter is_transfer (trace s) = []"
proof -
  obtain m' evs where g: "getFiles m w = (m', evs, Inr [])"
    using assms(1,3,4,5,6) by (auto simp: getFiles_def Let_def)
  let ?p = "\<lparr>plan_m = m', files = [], maxConcurrency = 1\<rparr>"
  let ?s0 = "\<lparr>pc = AtLoop 0, workers = [], listener = Listening, crashed = None, trace = evs\<rparr>"
  have st: "MigrateStore_start m w = (evs, Inr ?p)"
    using assms(1,2,7) g by (simp add: MigrateStore_start_def)
  have "exec ?p w sched ?s0 = Some s"
    using assms(8) st by (simp add: MigrateStore_def)
  moreover have "idle evs ?s0"
    by (simp add: idle_def)
  moreover have "files ?p = []"
    by simp
  ultimately have "idle evs s"
    using exec_idle by blast
  with g getFiles_no_transfer [OF g] show ?thesis
    by (auto simp: idle_def)
qed

theorem no_candidates_never_returns_witness:
  "(\<exists>m' evs. getFiles (sample_m ''Uploads'' ''AmazonS3'' ''GoogleCloudStorage'' False)
                 (sample_w [] None) = (m', evs, Inr [])) \<and>
   MigrateStore (sample_m ''Uploads'' ''AmazonS3'' ''GoogleCloudStorage'' False)
     (sample_w [] None) [Main] =
   Some \<lparr>pc = AtDrain, workers = [], listener = Listening, crashed = None,
         trace = [EvConnect ''mongodb://db'', EvFindOne ''rocketchat_settings'',
                  EvFind ''rocketchat_uploads''
                    \<lparr>q_store = ''AmazonS3:Uploads'', q_uploadedAt_gte = None\<rparr>]\<rparr>"
proof -
  let ?m = "sample_m ''Uploads'' ''AmazonS3'' ''GoogleCloudStorage'' False"
  let ?w = "sample_w [] None"
  let ?s = "\<lparr>pc = AtDrain, workers = [], listener = Listening, crashed = None,
         trace = [EvConnect ''mongodb://db'', EvFindOne ''rocketchat_settings'',
                  EvFind ''rocketchat_uploads''
                    \<lparr>q_store = ''AmazonS3:Uploads'', q_uploadedAt_gte = None\<rparr>]\<rparr>"
  have h1: "sourceStore ?m = Some (sample_store ''AmazonS3'')"
    and h2: "destinationStore ?m = Some (sample_store ''GoogleCloudStorage'')"
    and h3: "storeName ?m = ''Uploads'' \<or> storeName ?m = ''Avatars''"
    by (simp_all add: sample_m_def)
  have h4: "connectDB ?w (connectionString ?m) = None"
    and h5: "settings_FindOne ?w = Inr ''inst''"
    and h6: "\<And>c q. collection_Find ?w c q = Inr (Inr [])"
    and h7: "LookupEnv ?w ''MAX_CONCURRENCY'' = None"
    by (simp_all add: sample_w_def)
  have h8: "MigrateStore ?m ?w [Main] = Some ?s"
    by (simp add: run_defs sample_defs)
  from no_candidates_never_returns [OF h1 h2 h3 h4 h5 h6 h7 h8] h8
  show ?thesis by simp
qed

section \<open>An invalid concurrency limit\<close>

text \<open>
  C7, as the code has it. When \<open>MAX_CONCURRENCY\<close> is set to a value that
  \<open>Atoi\<close> rejects, \<open>MigrateStore\<close> returns an error before the listener and any
  worker is started, so no fetch, push or catalog update is made. The value is parsed
  after \<open>getFiles\<close>: when both providers are bound and \<open>getFiles\<close> succeeds, the
  accesses of \<open>getFiles\<close> (connection, instance identifier, candidate query) have
  been made and the error returned is the one of \<open>Atoi\<close>.
\<close>

theorem invalid_concurrency_limit:
  assumes "LookupEnv w ''MAX_CONCURRENCY'' = Some v" and "Atoi w v = Inl e"
  shows "(\<exists>evs err. MigrateStore_start m w = (evs, Inl err) \<and> filter is_transfer evs = [] \<and>
            MigrateStore m w [] =
              Some \<lparr>pc = Returned (Some err), workers = [], listener = NotStarted,
                    crashed = None, trace = evs\<rparr>) \<and>
         (sourceStore m \<noteq> None \<and> destinationStore m \<noteq> None \<and>
          getFiles m w = (m', evs', Inr fs) \<longrightarrow>
            MigrateStore_start m w = (evs', Inl e))"
proof -
  obtain m1 evs1 r1 where g: "getFiles m w = (m1, evs1, r1)"
    by (cases "getFiles m w") auto
  have nt: "filter is_transfer evs1 = []"
    using g by (rule getFiles_no_transfer)
  have "\<exists>evs err. MigrateStore_start m w = (evs, Inl err) \<and> filter is_transfer evs = []"
    using assms g nt by (cases r1) (auto simp: MigrateStore_start_def)
  then have 1: "\<exists>evs err. MigrateStore_start m w = (evs, Inl err) \<and> filter is_transfer evs = [] \<and>
            MigrateStore m w [] =
              Some \<lparr>pc = Returned (Some err), workers = [], listener = NotStarted,
                    crashed = None, trace = evs\<rparr>"
    by (auto simp: MigrateStore_def)
  have 2: "sourceStore m \<noteq> None \<and> destinationStore m \<noteq> None \<and>
           getFiles m w = (m', evs', Inr fs) \<longrightarrow> MigrateStore_start m w = (evs', Inl e)"
    using assms by (auto simp: MigrateStore_start_def)
  from 1 2 show ?thesis by blast
qed

theorem invalid_concurrency_limit_witness:
  "MigrateStore (sample_m ''Uploads'' ''AmazonS3'' ''GoogleCloudStorage'' False)
     (sample_w [sample_file ''a'' True] (Some ''two'')) [] =
   Some \<lparr>pc = Returned (Some (ErrOther ''invalid syntax'')), workers = [],
         listener = NotStarted, crashed = None,
         trace = [EvConnect ''mongodb://db'', EvFindOne ''rocketchat_settings'',
                  EvFind ''rocketchat_uploads''
                    \<lparr>q_store = ''AmazonS3:Uploads'', q_uploadedAt_gte = None\<rparr>]\<rparr>"
proof -
  let ?m = "sample_m ''Uploads'' ''AmazonS3'' ''GoogleCloudStorage'' False"
  let ?w = "sample_w [sample_file ''a'' True] (Some ''two'')"
  let ?evs = "[EvConnect ''mongodb://db'', EvFindOne ''rocketchat_settings'',
               EvFind ''rocketchat_uploads''
                 \<lparr>q_store = ''AmazonS3:Uploads'', q_uploadedAt_gte = None\<rparr>]"
  have h1: "LookupEnv ?w ''MAX_CONCURRENCY'' = Some ''two''"
    and h2: "Atoi ?w ''two'' = Inl (ErrOther ''invalid syntax'')"
    by (simp_all add: sample_w_def)
  have b: "sourceStore ?m \<noteq> None" "destinationStore ?m \<noteq> None"
    by (simp_all add: sample_m_def)
  have g: "getFiles ?m ?w =
             (?m\<lparr>fileCollectionName := ''rocketchat_uploads'', uniqueID := ''inst''\<rparr>, ?evs,
              Inr [sample_file ''a'' True])"
    by (simp add: sample_defs getFiles_def Let_def IsZero_def)
  from invalid_concurrency_limit [OF h1 h2, of ?m
      "?m\<lparr>fileCollectionName := ''rocketchat_uploads'', uniqueID := ''inst''\<rparr>" ?evs
      "[sample_file ''a'' True]"] b g
  show ?thesis by auto
qed

text \<open>
  The claim as stated fails: with the value \<open>two\<close>, the connection, the read of the
  instance identifier and the candidate query are made before the value is rejected.
\<close>

theorem invalid_concurrency_limit_counterexample:
  "MigrateStore_start (sample_m ''Uploads'' ''AmazonS3'' ''GoogleCloudStorage'' False)
     (sample_w [sample_file ''a'' True] (Some ''two'')) =
   ([EvConnect ''mongodb://db'', EvFindOne ''rocketchat_settings'',
     EvFind ''rocketchat_uploads'' \<lparr>q_store = ''AmazonS3:Uploads'', q_uploadedAt_gte = None\<rparr>],
    Inl (ErrOther ''invalid syntax''))"
  by (simp add: MigrateStore_start_def getFiles_def Let_def IsZero_def sample_defs)

end
